theory Spec2Isabelle
  imports Complex_Main "HOL-Library.Sublist"
begin

section \<open>Moss growth prediction: validation, framing, inference, response\<close>

text \<open>
  A shallow embedding of \<^verbatim>\<open>predict.py\<close> and of the request path of \<^verbatim>\<open>main.py\<close>.
  Python floats are read as real numbers: every comparison of the source is exact on
  finite floats, and NaN and the infinities are outside the model.
\<close>

subsection \<open>Result interpreter\<close>

text \<open>\<^verbatim>\<open>predict.py\<close>, lines 71-80.\<close>

definition get_interpretation :: "real \<Rightarrow> string" where
  "get_interpretation predicted_days =
     (if predicted_days < 15 then ''Very fast growth - Excellent conditions''
      else if predicted_days < 25 then ''Fast growth - Good conditions''
      else if predicted_days < 35 then ''Moderate growth - Acceptable conditions''
      else ''Slow growth - Suboptimal conditions'')"

text \<open>\<^verbatim>\<open>main.py\<close>, lines 215-232: the copy the request handler calls.\<close>

definition main_get_interpretation :: "real \<Rightarrow> string" where
  "main_get_interpretation predicted_days =
     (if predicted_days < 15 then ''Very fast growth - Excellent conditions''
      else if predicted_days < 25 then ''Fast growth - Good conditions''
      else if predicted_days < 35 then ''Moderate growth - Acceptable conditions''
      else ''Slow growth - Suboptimal conditions'')"

subsection \<open>Python values\<close>

text \<open>
  The exceptions that travel through the request path. \<open>str_exn\<close> is Python's
  \<^verbatim>\<open>str(e)\<close>, which the handlers splice into their messages.
\<close>

datatype exn =
    FileNotFoundError string
  | ValueError string
  | IndexError string
  | OtherError string

fun str_exn :: "exn \<Rightarrow> string" where
  "str_exn (FileNotFoundError msg) = msg"
| "str_exn (ValueError msg) = msg"
| "str_exn (IndexError msg) = msg"
| "str_exn (OtherError msg) = msg"

text \<open>Decimal rendering of a length, for the message of the frame constructor.\<close>

fun str_nat :: "nat \<Rightarrow> string" where
  "str_nat n =
     (if n < 10 then [char_of (48 + n)]
      else str_nat (n div 10) @ [char_of (48 + n mod 10)])"

text \<open>
  Python's \<^verbatim>\<open>round(x, ndigits)\<close>: to the nearest multiple of \<open>10 ^ - ndigits\<close>, a tie
  going to the even neighbour. On reals the tie is decided on the decimal value itself;
  a float decides it on its binary expansion, which this model does not follow.
\<close>

definition round_half_even :: "real \<Rightarrow> int" where
  "round_half_even x =
     (let f = \<lfloor>x\<rfloor>; r = x - of_int f
      in if r < 1 / 2 then f
         else if r > 1 / 2 then f + 1
         else if even f then f else f + 1)"

definition py_round :: "real \<Rightarrow> nat \<Rightarrow> real" where
  "py_round x ndigits = of_int (round_half_even (x * 10 ^ ndigits)) / 10 ^ ndigits"

subsection \<open>Artifacts and the file system\<close>

text \<open>
  A one-row data frame: the column labels and the values of the row.
  \<^verbatim>\<open>pd.DataFrame([row], columns=cols)\<close> raises ValueError when the number of labels is
  not the number of values, and otherwise pairs them by position.
\<close>

type_synonym dataframe = "string list \<times> real list"

definition DataFrame :: "real list \<Rightarrow> string list \<Rightarrow> exn + dataframe" where
  "DataFrame row columns =
     (if length columns \<noteq> length row
      then Inl (ValueError (str_nat (length columns) @ '' columns passed, passed data had ''
                  @ str_nat (length row) @ '' columns''))
      else Inr (columns, row))"

text \<open>
  The scaler and the regressor are produced outside the repository. They are parameters
  of the model: \<^verbatim>\<open>scaler.transform\<close> maps a data frame to the scaled row or raises,
  \<^verbatim>\<open>model.predict\<close> maps the scaled row to an array of predictions or raises.
\<close>

type_synonym scaler = "dataframe \<Rightarrow> exn + real list"

type_synonym regressor = "real list \<Rightarrow> exn + real list"

text \<open>The metadata document \<^verbatim>\<open>model_info.json\<close> with the three keys the code reads.\<close>

record model_info =
  model_name :: string
  test_r2 :: real
  features :: "string list"

text \<open>
  The part of the world the code touches: the three files of the working directory
  (\<open>None\<close> is an absent file; a present file holds a well-formed artifact, so a file
  that cannot be deserialised is outside the model) and the lines printed so far.
\<close>

record world =
  best_model_pkl :: "regressor option"
  scaler_pkl :: "scaler option"
  model_info_json :: "model_info option"
  stdout :: "string list"

definition print :: "string \<Rightarrow> world \<Rightarrow> world" where
  "print line w = w\<lparr>stdout := stdout w @ [line]\<rparr>"

text \<open>\<^verbatim>\<open>str\<close> of the FileNotFoundError that opening an absent file raises.\<close>

definition no_such_file :: "string \<Rightarrow> exn" where
  "no_such_file name =
     FileNotFoundError (''[Errno 2] No such file or directory: '' @ [CHR 0x27] @ name @ [CHR 0x27])"

text \<open>
  \<^verbatim>\<open>predict.py\<close>, lines 11-23. The three loads run in order inside one \<^verbatim>\<open>try\<close>; the first
  absent file raises, the handler prints the exception and returns
  \<^verbatim>\<open>(None, None, None)\<close>, which is \<open>None\<close> here.
\<close>

definition load_model :: "world \<Rightarrow> (regressor \<times> scaler \<times> model_info) option \<times> world" where
  "load_model w =
     (case best_model_pkl w of
        None \<Rightarrow>
          (None, print (''Error: Required file not found - '' @ str_exn (no_such_file ''best_model.pkl'')) w)
      | Some model \<Rightarrow>
          (case scaler_pkl w of
             None \<Rightarrow>
               (None, print (''Error: Required file not found - '' @ str_exn (no_such_file ''scaler.pkl'')) w)
           | Some scaler \<Rightarrow>
               (case model_info_json w of
                  None \<Rightarrow>
                    (None, print (''Error: Required file not found - ''
                                    @ str_exn (no_such_file ''model_info.json'')) w)
                | Some model_info \<Rightarrow> (Some (model, scaler, model_info), w))))"

subsection \<open>Inference pipeline\<close>

text \<open>
  The \<^verbatim>\<open>result\<close> dictionary of \<^verbatim>\<open>predict_growth_days\<close>; \<^verbatim>\<open>input_conditions\<close> is a
  dictionary too, kept as the list of its items in insertion order.
\<close>

record result =
  input_conditions :: "(string \<times> real) list"
  predicted_growth_days :: real
  model_used :: string
  model_accuracy_r2 :: real

text \<open>
  \<^verbatim>\<open>predict.py\<close>, lines 25-69. The function returns \<^verbatim>\<open>(None, None)\<close> (here \<open>Inr None\<close>)
  when the load failed, \<^verbatim>\<open>(prediction, result)\<close> on success, and lets the exceptions of
  the frame constructor, the scaler and the regressor escape (\<open>Inl\<close>).
\<close>

definition predict_growth_days ::
  "world \<Rightarrow> real \<Rightarrow> real \<Rightarrow> real \<Rightarrow> real \<Rightarrow> (exn + (real \<times> result) option) \<times> world" where
  "predict_growth_days w temperature' humidity' tds' ph' =
     (case load_model w of
        (None, w') \<Rightarrow> (Inr None, w')
      | (Some (model, scaler, model_info), w') \<Rightarrow>
          (let feature_names = features model_info;
               input_values = [temperature', humidity', tds', ph']
           in case DataFrame input_values feature_names of
                Inl e \<Rightarrow> (Inl e, w')
              | Inr input_data \<Rightarrow>
                  (case scaler input_data of
                     Inl e \<Rightarrow> (Inl e, w')
                   | Inr input_scaled \<Rightarrow>
                       (case model input_scaled of
                          Inl e \<Rightarrow> (Inl e, w')
                        | Inr [] \<Rightarrow> (Inl (IndexError ''index 0 is out of bounds''), w')
                        | Inr (prediction # _) \<Rightarrow>
                            (Inr (Some (prediction,
                               \<lparr>input_conditions =
                                  [(''temperature'', temperature'), (''humidity'', humidity'),
                                   (''tds'', tds'), (''ph'', ph')],
                                predicted_growth_days = py_round prediction 2,
                                model_used = model_name model_info,
                                model_accuracy_r2 = py_round (test_r2 model_info) 4\<rparr>)), w')))))"

subsection \<open>Input validator\<close>

text \<open>
  \<^verbatim>\<open>main.py\<close>, lines 67-142. A field of \<^verbatim>\<open>PredictionInput\<close> is checked against the
  bounds of its \<^verbatim>\<open>Field(..., ge=lo, le=hi)\<close> and then handed to its validator method.
  A failure carries the violated bound or the validator's message.
\<close>

datatype field_error = Not_ge real | Not_le real | Value_error string

definition Field :: "real \<Rightarrow> real \<Rightarrow> real \<Rightarrow> field_error + real" where
  "Field ge le v =
     (if \<not> v \<ge> ge then Inl (Not_ge ge)
      else if \<not> v \<le> le then Inl (Not_le le)
      else Inr v)"

definition validate_temperature :: "real \<Rightarrow> field_error + real" where
  "validate_temperature v =
     (if v < 18.0 \<or> v > 35.0
      then Inl (Value_error (''Temperature must be between 18.0'' @ [CHR 0xC2, CHR 0xB0]
                  @ ''C and 35.0'' @ [CHR 0xC2, CHR 0xB0] @ ''C''))
      else Inr (py_round v 2))"

definition validate_humidity :: "real \<Rightarrow> field_error + real" where
  "validate_humidity v =
     (if v < 50.0 \<or> v > 80.0
      then Inl (Value_error ''Humidity must be between 50.0% and 80.0%'')
      else Inr (py_round v 2))"

definition validate_tds :: "real \<Rightarrow> field_error + real" where
  "validate_tds v =
     (if v < 400.0 \<or> v > 800.0
      then Inl (Value_error ''TDS must be between 400.0 ppm and 800.0 ppm'')
      else Inr (py_round v 2))"

definition validate_ph :: "real \<Rightarrow> field_error + real" where
  "validate_ph v =
     (if v < 6.0 \<or> v > 7.0
      then Inl (Value_error ''pH must be between 6.0 and 7.0'')
      else Inr (py_round v 2))"

record PredictionInput =
  temperature :: real
  humidity :: real
  tds :: real
  ph :: real

text \<open>One field: the bounds first, the validator method on what passed them.\<close>

definition check_field ::
  "(real \<Rightarrow> field_error + real) \<Rightarrow> (real \<Rightarrow> field_error + real) \<Rightarrow> real \<Rightarrow> field_error + real" where
  "check_field bounds validator v =
     (case bounds v of Inl e \<Rightarrow> Inl e | Inr v' \<Rightarrow> validator v')"

definition field_errors :: "string \<Rightarrow> field_error + real \<Rightarrow> (string \<times> field_error) list" where
  "field_errors name r = (case r of Inl e \<Rightarrow> [(name, e)] | Inr _ \<Rightarrow> [])"

text \<open>
  Building a \<^verbatim>\<open>PredictionInput\<close> from the four numbers of a request: every field is
  checked, and the failures of all fields are reported together, each under the name
  of its field.
\<close>

definition validate_PredictionInput ::
  "real \<Rightarrow> real \<Rightarrow> real \<Rightarrow> real \<Rightarrow> (string \<times> field_error) list + PredictionInput" where
  "validate_PredictionInput t h d p =
     (let rt = check_field (Field 18.0 35.0) validate_temperature t;
          rh = check_field (Field 50.0 80.0) validate_humidity h;
          rd = check_field (Field 400.0 800.0) validate_tds d;
          rp = check_field (Field 6.0 7.0) validate_ph p
      in case (rt, rh, rd, rp) of
           (Inr t', Inr h', Inr d', Inr p') \<Rightarrow>
             Inr \<lparr>temperature = t', humidity = h', tds = d', ph = p'\<rparr>
         | _ \<Rightarrow>
             Inl (field_errors ''temperature'' rt @ field_errors ''humidity'' rh
                  @ field_errors ''tds'' rd @ field_errors ''ph'' rp))"

subsection \<open>Request handler\<close>

text \<open>
  \<^verbatim>\<open>PredictionOutput\<close> has the fields of \<open>result\<close> and the interpretation
  (the field name carries a prime, the plain word being a command of the prover).
\<close>

record PredictionOutput = result +
  interpretation' :: string

datatype response =
    Response PredictionOutput
  | HTTPException nat string
  | RequestValidationError "(string \<times> field_error) list"

text \<open>
  \<^verbatim>\<open>main.py\<close>, lines 367-416. The HTTPException raised inside the \<^verbatim>\<open>try\<close> for a failed
  load is itself caught by \<^verbatim>\<open>except Exception\<close> and wrapped again; its \<^verbatim>\<open>str\<close> is the
  status code and the detail. \<open>OtherError\<close> stands for the exceptions that are neither a
  ValueError nor a FileNotFoundError.
\<close>

definition predict :: "world \<Rightarrow> PredictionInput \<Rightarrow> response \<times> world" where
  "predict w input_data =
     (case predict_growth_days w (temperature input_data) (humidity input_data)
             (tds input_data) (ph input_data) of
        (Inr (Some (prediction, result)), w') \<Rightarrow>
          (let interpretation = main_get_interpretation prediction
           in (Response \<lparr>input_conditions = input_conditions result,
                          predicted_growth_days = py_round prediction 2,
                          model_used = model_used result,
                          model_accuracy_r2 = model_accuracy_r2 result,
                          interpretation' = interpretation\<rparr>, w'))
      | (Inr None, w') \<Rightarrow>
          (HTTPException 500 (''Prediction error: '' @ ''500: ''
             @ ''Failed to load model or make prediction. Please check model files.''), w')
      | (Inl (ValueError msg), w') \<Rightarrow>
          (HTTPException 422 (''Validation error: '' @ msg), w')
      | (Inl (FileNotFoundError msg), w') \<Rightarrow>
          (HTTPException 500 (''Model file not found: '' @ msg), w')
      | (Inl e, w') \<Rightarrow>
          (HTTPException 500 (''Prediction error: '' @ str_exn e), w'))"

text \<open>
  The route \<^verbatim>\<open>POST /predict\<close>: the framework builds the \<^verbatim>\<open>PredictionInput\<close> and calls
  the handler only when that succeeded.
\<close>

definition post_predict :: "world \<Rightarrow> real \<Rightarrow> real \<Rightarrow> real \<Rightarrow> real \<Rightarrow> response \<times> world" where
  "post_predict w t h d p =
     (case validate_PredictionInput t h d p of
        Inl errors \<Rightarrow> (RequestValidationError errors, w)
      | Inr input_data \<Rightarrow> predict w input_data)"

subsection \<open>Concrete artifacts\<close>

text \<open>
  A scaler fitted without column names hands the values on by position and never looks
  at the labels; \<open>plain_scaler\<close> is the simplest such scaler. \<open>slope_regressor k\<close>
  predicts \<open>k\<close> times the first column, so its prediction tells which value sits in the
  first column.
\<close>

definition plain_scaler :: scaler where
  "plain_scaler input_data = Inr (snd input_data)"

definition slope_regressor :: "real \<Rightarrow> regressor" where
  "slope_regressor k input_scaled =
     (case input_scaled of
        [] \<Rightarrow> Inl (ValueError ''Found array with 0 feature(s)'')
      | x # _ \<Rightarrow> Inr [k * x])"

definition example_info :: model_info where
  "example_info =
     \<lparr>model_name = ''Random Forest'', test_r2 = 0.624,
      features = [''temperature'', ''humidity'', ''tds'', ''ph'']\<rparr>"

definition example_world :: world where
  "example_world =
     \<lparr>best_model_pkl = Some (slope_regressor 1), scaler_pkl = Some plain_scaler,
      model_info_json = Some example_info, stdout = []\<rparr>"

text \<open>The same bundle with the first two feature names exchanged.\<close>

definition swapped_world :: world where
  "swapped_world = example_world\<lparr>model_info_json :=
     Some (example_info\<lparr>features := [''humidity'', ''temperature'', ''tds'', ''ph'']\<rparr>)\<rparr>"

text \<open>
  A scaler that looks its one column up by label: it returns the value that the frame
  holds under the label \<^verbatim>\<open>humidity\<close>, so its answer tells which value was put under
  that label.
\<close>

definition humidity_column_scaler :: scaler where
  "humidity_column_scaler input_data =
     (case map_of (zip (fst input_data) (snd input_data)) ''humidity'' of
        None \<Rightarrow> Inl (ValueError ''columns are missing: humidity'')
      | Some v \<Rightarrow> Inr [v])"

definition by_label_world :: world where
  "by_label_world = example_world\<lparr>scaler_pkl := Some humidity_column_scaler\<rparr>"

definition by_label_swapped_world :: world where
  "by_label_swapped_world = swapped_world\<lparr>scaler_pkl := Some humidity_column_scaler\<rparr>"

text \<open>A regressor that predicts ten times the first column.\<close>

definition tenfold_world :: world where
  "tenfold_world = example_world\<lparr>best_model_pkl := Some (slope_regressor 10)\<rparr>"

text \<open>Four feature names, none of which is a field of the reading.\<close>

definition unknown_names_world :: world where
  "unknown_names_world = example_world\<lparr>model_info_json :=
     Some (example_info\<lparr>features := [''light'', ''wind'', ''noise'', ''salinity'']\<rparr>)\<rparr>"

text \<open>Only two feature names.\<close>

definition short_features_world :: world where
  "short_features_world = example_world\<lparr>model_info_json :=
     Some (example_info\<lparr>features := [''temperature'', ''humidity'']\<rparr>)\<rparr>"

text \<open>The regressor is present; the scaler and the metadata are absent.\<close>

definition two_missing_world :: world where
  "two_missing_world = example_world\<lparr>scaler_pkl := None, model_info_json := None\<rparr>"

text \<open>
  A bundle whose accuracy has five decimals and whose prediction for a temperature of
  22.5 is 14.99625, just below the boundary of 15.
\<close>

definition precise_info :: model_info where
  "precise_info = example_info\<lparr>test_r2 := 0.62417\<rparr>"

definition precise_world :: world where
  "precise_world = example_world\<lparr>best_model_pkl := Some (slope_regressor 0.6665),
     model_info_json := Some precise_info\<rparr>"

definition precise_response :: PredictionOutput where
  "precise_response =
     \<lparr>input_conditions =
        [(''temperature'', 22.5), (''humidity'', 70), (''tds'', 600), (''ph'', 6.4)],
      predicted_growth_days = 15, model_used = ''Random Forest'',
      model_accuracy_r2 = 0.6242,
      interpretation' = ''Very fast growth - Excellent conditions''\<rparr>"

section \<open>Properties\<close>

lemmas example_defs =
  example_world_def example_info_def plain_scaler_def slope_regressor_def

lemmas pipeline_defs =
  predict_growth_days_def load_model_def DataFrame_def py_round_def round_half_even_def

lemmas validate_defs =
  validate_PredictionInput_def check_field_def Field_def field_errors_def
  validate_temperature_def validate_humidity_def validate_tds_def validate_ph_def

lemmas handler_defs =
  post_predict_def predict_def main_get_interpretation_def

subsection \<open>Rounding\<close>

lemma round_half_even_close: "\<bar>of_int (round_half_even y) - y\<bar> \<le> 1 / 2"
proof -
  have "of_int \<lfloor>y\<rfloor> \<le> y" "y < of_int \<lfloor>y\<rfloor> + 1"
    by linarith+
  then show ?thesis
    by (auto simp add: round_half_even_def Let_def)
qed

lemma py_round_close: "\<bar>py_round x 2 - x\<bar> \<le> 1 / 200"
proof -
  have "\<bar>of_int (round_half_even (x * 100)) - x * 100\<bar> \<le> 1 / 2"
    by (rule round_half_even_close)
  then show ?thesis
    by (simp add: py_round_def abs_le_iff field_simps)
qed

lemma py_round_grid: "py_round x 2 * 100 \<in> \<int>"
  by (simp add: py_round_def)

lemma round_half_even_tie:
  "\<bar>of_int (round_half_even y) - y\<bar> = 1 / 2 \<Longrightarrow> even (round_half_even y)"
proof -
  have "of_int \<lfloor>y\<rfloor> \<le> y" "y < of_int \<lfloor>y\<rfloor> + 1"
    by linarith+
  then show "\<bar>of_int (round_half_even y) - y\<bar> = 1 / 2 \<Longrightarrow> even (round_half_even y)"
    by (auto simp add: round_half_even_def Let_def split: if_splits)
qed

lemma py_round_nearest:
  "\<exists>k::int. py_round x n = of_int k / 10 ^ n
     \<and> \<bar>of_int k - x * 10 ^ n\<bar> \<le> 1 / 2
     \<and> (\<bar>of_int k - x * 10 ^ n\<bar> = 1 / 2 \<longrightarrow> even k)"
  using round_half_even_close [of "x * 10 ^ n"] round_half_even_tie [of "x * 10 ^ n"]
  by (auto simp add: py_round_def)

lemma py_round_tie:
  assumes "\<bar>py_round x 2 - x\<bar> = 1 / 200"
  shows "even \<lfloor>py_round x 2 * 100\<rfloor>"
proof -
  have "\<bar>of_int (round_half_even (x * 100)) - x * 100\<bar> = 1 / 2"
  proof -
    have "\<bar>of_int (round_half_even (x * 100)) - x * 100\<bar> = \<bar>py_round x 2 - x\<bar> * 100"
      by (simp add: py_round_def abs_if field_simps)
    then show ?thesis using assms by simp
  qed
  then have "even (round_half_even (x * 100))"
    by (rule round_half_even_tie)
  then show ?thesis
    by (simp add: py_round_def)
qed

lemma py_round_exact: "py_round (of_int k / 10 ^ n) n = of_int k / 10 ^ n"
  by (simp add: py_round_def round_half_even_def)

subsection \<open>Loading and framing\<close>

lemma load_model_present:
  assumes "best_model_pkl w = Some model" "scaler_pkl w = Some scaler"
    "model_info_json w = Some info"
  shows "load_model w = (Some (model, scaler, info), w)"
  using assms by (simp add: load_model_def)

lemma load_model_absent:
  assumes "best_model_pkl w = None \<or> scaler_pkl w = None \<or> model_info_json w = None"
  shows "load_model w =
    (None, print (''Error: Required file not found - '' @ str_exn (no_such_file
       (if best_model_pkl w = None then ''best_model.pkl''
        else if scaler_pkl w = None then ''scaler.pkl'' else ''model_info.json''))) w)"
  using assms by (auto simp add: load_model_def split: option.splits)

lemma load_model_cases:
  "load_model w = (r, w') \<Longrightarrow>
     (r = None \<and> (best_model_pkl w = None \<or> scaler_pkl w = None \<or> model_info_json w = None))
     \<or> (\<exists>model scaler info. r = Some (model, scaler, info) \<and> w' = w
          \<and> best_model_pkl w = Some model \<and> scaler_pkl w = Some scaler
          \<and> model_info_json w = Some info)"
  by (auto simp add: load_model_def split: option.splits)

lemma DataFrame_four:
  "length columns = 4 \<Longrightarrow> DataFrame [a, b, c, e] columns = Inr (columns, [a, b, c, e])"
  by (simp add: DataFrame_def)

lemma str_nat_four: "str_nat (length [a, b, c, e]) = ''4''"
  by code_simp

lemma DataFrame_not_four:
  "length columns \<noteq> 4 \<Longrightarrow> DataFrame [a, b, c, e] columns =
     Inl (ValueError (str_nat (length columns) @ '' columns passed, passed data had 4 columns''))"
  using str_nat_four [of a b c e] by (simp add: DataFrame_def del: str_nat.simps)

lemma predict_growth_days_present:
  assumes "best_model_pkl w = Some model" "scaler_pkl w = Some scaler"
    "model_info_json w = Some info" "length (features info) = 4"
  shows "predict_growth_days w t h d p =
     (case scaler (features info, [t, h, d, p]) of
        Inl e \<Rightarrow> (Inl e, w)
      | Inr input_scaled \<Rightarrow>
          (case model input_scaled of
             Inl e \<Rightarrow> (Inl e, w)
           | Inr [] \<Rightarrow> (Inl (IndexError ''index 0 is out of bounds''), w)
           | Inr (prediction # _) \<Rightarrow>
               (Inr (Some (prediction,
                  \<lparr>input_conditions =
                     [(''temperature'', t), (''humidity'', h), (''tds'', d), (''ph'', p)],
                   predicted_growth_days = py_round prediction 2,
                   model_used = model_name info,
                   model_accuracy_r2 = py_round (test_r2 info) 4\<rparr>)), w)))"
  using assms
  by (simp add: predict_growth_days_def load_model_present DataFrame_four)

text \<open>What a successful run of the pipeline went through.\<close>

lemma predict_growth_days_success:
  assumes "predict_growth_days w a b c e = (Inr (Some (prediction, res)), w')"
  shows "\<exists>model scaler info input_scaled rest.
      best_model_pkl w = Some model \<and> scaler_pkl w = Some scaler
    \<and> model_info_json w = Some info \<and> w' = w \<and> length (features info) = 4
    \<and> scaler (features info, [a, b, c, e]) = Inr input_scaled
    \<and> model input_scaled = Inr (prediction # rest)
    \<and> res = \<lparr>input_conditions =
                [(''temperature'', a), (''humidity'', b), (''tds'', c), (''ph'', e)],
              predicted_growth_days = py_round prediction 2,
              model_used = model_name info,
              model_accuracy_r2 = py_round (test_r2 info) 4\<rparr>"
proof -
  obtain r w0 where lm: "load_model w = (r, w0)"
    by (cases "load_model w")
  from assms lm obtain model scaler info where r: "r = Some (model, scaler, info)"
    by (cases r) (auto simp add: predict_growth_days_def)
  with load_model_cases [OF lm] have files: "best_model_pkl w = Some model"
    "scaler_pkl w = Some scaler" "model_info_json w = Some info" "w0 = w"
    by auto
  have len: "length (features info) = 4"
  proof (rule ccontr)
    assume "length (features info) \<noteq> 4"
    then show False
      using assms lm r
      by (simp add: predict_growth_days_def DataFrame_not_four del: str_nat.simps)
  qed
  from assms show ?thesis
    unfolding predict_growth_days_present [OF files(1-3) len]
    using files len
    by (auto split: sum.splits list.splits)
qed

lemma predict_Response:
  assumes "predict w input_data = (Response out, w')"
  shows "\<exists>prediction res.
      predict_growth_days w (temperature input_data) (humidity input_data)
        (tds input_data) (ph input_data) = (Inr (Some (prediction, res)), w')
    \<and> out = \<lparr>input_conditions = input_conditions res,
              predicted_growth_days = py_round prediction 2,
              model_used = model_used res,
              model_accuracy_r2 = model_accuracy_r2 res,
              interpretation' = main_get_interpretation prediction\<rparr>"
  using assms
  by (auto simp add: predict_def Let_def split: prod.splits sum.splits option.splits exn.splits)

subsection \<open>Validation\<close>

lemma validate_in_bounds:
  assumes "18 \<le> t" "t \<le> 35" "50 \<le> h" "h \<le> 80" "400 \<le> d" "d \<le> 800" "6 \<le> p" "p \<le> 7"
  shows "validate_PredictionInput t h d p =
    Inr \<lparr>temperature = py_round t 2, humidity = py_round h 2,
         tds = py_round d 2, ph = py_round p 2\<rparr>"
  using assms by (simp add: validate_defs)

lemma validate_out_of_bounds:
  assumes "\<not> (18 \<le> t \<and> t \<le> 35 \<and> 50 \<le> h \<and> h \<le> 80 \<and> 400 \<le> d \<and> d \<le> 800 \<and> 6 \<le> p \<and> p \<le> 7)"
  shows "validate_PredictionInput t h d p =
    Inl ((if t < 18 then [(''temperature'', Not_ge 18)]
          else if 35 < t then [(''temperature'', Not_le 35)] else [])
       @ (if h < 50 then [(''humidity'', Not_ge 50)]
          else if 80 < h then [(''humidity'', Not_le 80)] else [])
       @ (if d < 400 then [(''tds'', Not_ge 400)]
          else if 800 < d then [(''tds'', Not_le 800)] else [])
       @ (if p < 6 then [(''ph'', Not_ge 6)]
          else if 7 < p then [(''ph'', Not_le 7)] else []))"
  using assms
  by (simp add: validate_defs not_le not_less split: sum.splits) (auto simp: not_le)

lemma validate_Inr_rounded:
  assumes "validate_PredictionInput t h d p = Inr reading"
  shows "reading = \<lparr>temperature = py_round t 2, humidity = py_round h 2,
                    tds = py_round d 2, ph = py_round p 2\<rparr>"
proof -
  have "18 \<le> t \<and> t \<le> 35 \<and> 50 \<le> h \<and> h \<le> 80 \<and> 400 \<le> d \<and> d \<le> 800 \<and> 6 \<le> p \<and> p \<le> 7"
  proof (rule ccontr)
    assume out: "\<not> ?thesis"
    show False
      using assms unfolding validate_out_of_bounds [OF out] by simp
  qed
  then show ?thesis
    using assms by (simp add: validate_in_bounds)
qed

subsection \<open>Feature framing\<close>

text \<open>
  C1, as stated, fails. The claim says that exchanging two entries of the feature list,
  with the reading unchanged, gives a different prediction. Here the first two names are
  exchanged, the scaler passes the values on by position and the regressor returns the
  first column: the prediction is the temperature, 22.5, under both lists. A pipeline
  that placed each value under its name would have put the humidity, 70, first.
\<close>

theorem feature_swap_counterexample:
  "model_info_json example_world = Some example_info
    \<and> model_info_json swapped_world =
        Some (example_info\<lparr>features := [''humidity'', ''temperature'', ''tds'', ''ph'']\<rparr>)
    \<and> features example_info = [''temperature'', ''humidity'', ''tds'', ''ph'']
    \<and> fst (predict_growth_days swapped_world 22.5 70 600 6.4)
        = fst (predict_growth_days example_world 22.5 70 600 6.4)
    \<and> fst (predict_growth_days swapped_world 22.5 70 600 6.4) =
        Inr (Some (22.5,
          \<lparr>input_conditions =
             [(''temperature'', 22.5), (''humidity'', 70), (''tds'', 600), (''ph'', 6.4)],
           predicted_growth_days = 22.5, model_used = ''Random Forest'',
           model_accuracy_r2 = 0.624\<rparr>))"
  by (simp add: swapped_world_def example_defs pipeline_defs)

text \<open>
  C1, amended. For every reading and every bundle whose metadata lists 4 feature names,
  the pipeline applies the scaler to one row whose values are always in the fixed order
  temperature, humidity, tds, ph, with the feature list attached position by position
  as the column labels, and the regressor to what the scaler returns; the prediction is
  the first entry of the regressor's answer. The values are not rearranged by name, so
  the feature list enters the outcome only through the scaler's answer on that labelled
  row: a second bundle that differs in the feature list alone, and on whose labelled
  row the scaler answers alike, gives the same outcome.
\<close>

theorem frame_values_fixed_order:
  assumes "best_model_pkl w = Some model" "scaler_pkl w = Some scaler"
    "model_info_json w = Some info" "length (features info) = 4"
  shows "predict_growth_days w t h d p =
     (case scaler (features info, [t, h, d, p]) of
        Inl e \<Rightarrow> (Inl e, w)
      | Inr input_scaled \<Rightarrow>
          (case model input_scaled of
             Inl e \<Rightarrow> (Inl e, w)
           | Inr [] \<Rightarrow> (Inl (IndexError ''index 0 is out of bounds''), w)
           | Inr (prediction # _) \<Rightarrow>
               (Inr (Some (prediction,
                  \<lparr>input_conditions =
                     [(''temperature'', t), (''humidity'', h), (''tds'', d), (''ph'', p)],
                   predicted_growth_days = py_round prediction 2,
                   model_used = model_name info,
                   model_accuracy_r2 = py_round (test_r2 info) 4\<rparr>)), w)))
    \<and> (best_model_pkl w2 = Some model \<and> scaler_pkl w2 = Some scaler
        \<and> model_info_json w2 = Some (info\<lparr>features := features2\<rparr>) \<and> length features2 = 4
        \<and> scaler (features2, [t, h, d, p]) = scaler (features info, [t, h, d, p])
       \<longrightarrow> fst (predict_growth_days w2 t h d p) = fst (predict_growth_days w t h d p))"
proof (intro conjI impI)
  show "predict_growth_days w t h d p =
     (case scaler (features info, [t, h, d, p]) of
        Inl e \<Rightarrow> (Inl e, w)
      | Inr input_scaled \<Rightarrow>
          (case model input_scaled of
             Inl e \<Rightarrow> (Inl e, w)
           | Inr [] \<Rightarrow> (Inl (IndexError ''index 0 is out of bounds''), w)
           | Inr (prediction # _) \<Rightarrow>
               (Inr (Some (prediction,
                  \<lparr>input_conditions =
                     [(''temperature'', t), (''humidity'', h), (''tds'', d), (''ph'', p)],
                   predicted_growth_days = py_round prediction 2,
                   model_used = model_name info,
                   model_accuracy_r2 = py_round (test_r2 info) 4\<rparr>)), w)))"
    using assms by (rule predict_growth_days_present)
next
  assume other: "best_model_pkl w2 = Some model \<and> scaler_pkl w2 = Some scaler
        \<and> model_info_json w2 = Some (info\<lparr>features := features2\<rparr>) \<and> length features2 = 4
        \<and> scaler (features2, [t, h, d, p]) = scaler (features info, [t, h, d, p])"
  then have len2: "length (features (info\<lparr>features := features2\<rparr>)) = 4"
    by simp
  from other have files2: "best_model_pkl w2 = Some model" "scaler_pkl w2 = Some scaler"
    "model_info_json w2 = Some (info\<lparr>features := features2\<rparr>)"
    by simp_all
  from predict_growth_days_present [OF files2 len2, of t h d p]
    predict_growth_days_present [OF assms, of t h d p] other
  show "fst (predict_growth_days w2 t h d p) = fst (predict_growth_days w t h d p)"
    by (simp split: sum.splits list.splits)
qed

text \<open>
  With the scaler that reads the column labelled \<^verbatim>\<open>humidity\<close>, the prediction is the
  humidity, 70, under the natural feature order, and the temperature, 22.5, once the
  first two names are exchanged: the first value of the row is the temperature, whatever
  its label. With the scaler that ignores labels the exchange changes nothing.
\<close>

theorem frame_values_fixed_order_witness:
  "length (features example_info) = 4
    \<and> predict_growth_days by_label_world 22.5 70 600 6.4 =
        (Inr (Some (70,
          \<lparr>input_conditions =
             [(''temperature'', 22.5), (''humidity'', 70), (''tds'', 600), (''ph'', 6.4)],
           predicted_growth_days = 70, model_used = ''Random Forest'',
           model_accuracy_r2 = 0.624\<rparr>)), by_label_world)
    \<and> predict_growth_days by_label_swapped_world 22.5 70 600 6.4 =
        (Inr (Some (22.5,
          \<lparr>input_conditions =
             [(''temperature'', 22.5), (''humidity'', 70), (''tds'', 600), (''ph'', 6.4)],
           predicted_growth_days = 22.5, model_used = ''Random Forest'',
           model_accuracy_r2 = 0.624\<rparr>)), by_label_swapped_world)
    \<and> plain_scaler ([''humidity'', ''temperature'', ''tds'', ''ph''], [22.5, 70, 600, 6.4])
        = plain_scaler (features example_info, [22.5, 70, 600, 6.4])
    \<and> fst (predict_growth_days swapped_world 22.5 70 600 6.4)
        = fst (predict_growth_days example_world 22.5 70 600 6.4)"
proof -
  have a: "predict_growth_days by_label_world 22.5 70 600 6.4 =
        (Inr (Some (70,
          \<lparr>input_conditions =
             [(''temperature'', 22.5), (''humidity'', 70), (''tds'', 600), (''ph'', 6.4)],
           predicted_growth_days = 70, model_used = ''Random Forest'',
           model_accuracy_r2 = 0.624\<rparr>)), by_label_world)"
    using frame_values_fixed_order [of by_label_world "slope_regressor 1" humidity_column_scaler example_info
        "22.5" 70 600 "6.4"]
    by (simp add: by_label_world_def example_world_def example_info_def
        humidity_column_scaler_def slope_regressor_def py_round_def round_half_even_def)
  have b: "predict_growth_days by_label_swapped_world 22.5 70 600 6.4 =
        (Inr (Some (22.5,
          \<lparr>input_conditions =
             [(''temperature'', 22.5), (''humidity'', 70), (''tds'', 600), (''ph'', 6.4)],
           predicted_growth_days = 22.5, model_used = ''Random Forest'',
           model_accuracy_r2 = 0.624\<rparr>)), by_label_swapped_world)"
    using frame_values_fixed_order [of by_label_swapped_world "slope_regressor 1" humidity_column_scaler
        "example_info\<lparr>features := [''humidity'', ''temperature'', ''tds'', ''ph'']\<rparr>"
        "22.5" 70 600 "6.4"]
    by (simp add: by_label_swapped_world_def swapped_world_def example_world_def example_info_def
        humidity_column_scaler_def slope_regressor_def py_round_def round_half_even_def)
  have c: "fst (predict_growth_days swapped_world 22.5 70 600 6.4)
        = fst (predict_growth_days example_world 22.5 70 600 6.4)"
    using frame_values_fixed_order [of example_world "slope_regressor 1" plain_scaler example_info
        "22.5" 70 600 "6.4" swapped_world "[''humidity'', ''temperature'', ''tds'', ''ph'']"]
    by (simp add: swapped_world_def example_world_def example_info_def plain_scaler_def)
  show ?thesis
    using a b c by (simp add: example_info_def plain_scaler_def)
qed

subsection \<open>Result interpreter\<close>

text \<open>
  C2. The interpreter is total on the reals, and each of the four categories is returned
  exactly on its band: below 15, from 15 (included) to 25, from 25 (included) to 35, and
  from 35 (included) upwards. The bands leave no gap and do not overlap, since each
  category is characterised by its band. At the boundary, 15.0 is Fast and 14.99 is
  Very fast. Both copies of the function are covered.
\<close>

theorem interpretation_bands:
  fixes days :: real
  shows "(days < 15 \<longrightarrow> get_interpretation days = ''Very fast growth - Excellent conditions'')
    \<and> (15 \<le> days \<and> days < 25 \<longrightarrow> get_interpretation days = ''Fast growth - Good conditions'')
    \<and> (25 \<le> days \<and> days < 35 \<longrightarrow>
          get_interpretation days = ''Moderate growth - Acceptable conditions'')
    \<and> (35 \<le> days \<longrightarrow> get_interpretation days = ''Slow growth - Suboptimal conditions'')
    \<and> (get_interpretation days = ''Very fast growth - Excellent conditions'' \<longrightarrow> days < 15)
    \<and> (get_interpretation days = ''Fast growth - Good conditions'' \<longrightarrow> 15 \<le> days \<and> days < 25)
    \<and> (get_interpretation days = ''Moderate growth - Acceptable conditions'' \<longrightarrow>
          25 \<le> days \<and> days < 35)
    \<and> (get_interpretation days = ''Slow growth - Suboptimal conditions'' \<longrightarrow> 35 \<le> days)
    \<and> main_get_interpretation days = get_interpretation days
    \<and> get_interpretation 15.0 = ''Fast growth - Good conditions''
    \<and> get_interpretation 14.99 = ''Very fast growth - Excellent conditions''"
  by (simp add: get_interpretation_def main_get_interpretation_def)

theorem interpretation_bands_witness:
  "get_interpretation 20 = ''Fast growth - Good conditions''
    \<and> get_interpretation 30 = ''Moderate growth - Acceptable conditions''
    \<and> get_interpretation 40 = ''Slow growth - Suboptimal conditions''
    \<and> get_interpretation 3 = ''Very fast growth - Excellent conditions''"
  using interpretation_bands [of 20] interpretation_bands [of 30]
    interpretation_bands [of 40] interpretation_bands [of 3]
  by simp

subsection \<open>Input validator\<close>

text \<open>
  C3. A reading is accepted if and only if every field lies within its inclusive bounds:
  temperature in [18, 35], humidity in [50, 80], tds in [400, 800], ph in [6, 7]. When
  it is rejected, the failure names a field exactly when that field is out of range,
  whatever the other fields are, and names nothing but the four fields. A temperature
  of 15.0 yields a failure naming temperature, a ph of 7.5 one naming ph.
\<close>

theorem validation_bounds:
  "((\<exists>reading. validate_PredictionInput t h d p = Inr reading) \<longleftrightarrow>
      (18 \<le> t \<and> t \<le> 35 \<and> 50 \<le> h \<and> h \<le> 80 \<and> 400 \<le> d \<and> d \<le> 800 \<and> 6 \<le> p \<and> p \<le> 7))
    \<and> (\<forall>errors. validate_PredictionInput t h d p = Inl errors \<longrightarrow>
          (''temperature'' \<in> fst ` set errors \<longleftrightarrow> \<not> (18 \<le> t \<and> t \<le> 35))
        \<and> (''humidity'' \<in> fst ` set errors \<longleftrightarrow> \<not> (50 \<le> h \<and> h \<le> 80))
        \<and> (''tds'' \<in> fst ` set errors \<longleftrightarrow> \<not> (400 \<le> d \<and> d \<le> 800))
        \<and> (''ph'' \<in> fst ` set errors \<longleftrightarrow> \<not> (6 \<le> p \<and> p \<le> 7))
        \<and> fst ` set errors \<subseteq> {''temperature'', ''humidity'', ''tds'', ''ph''})
    \<and> validate_PredictionInput 15.0 70 600 6.4 = Inl [(''temperature'', Not_ge 18)]
    \<and> validate_PredictionInput 22.5 70 600 7.5 = Inl [(''ph'', Not_le 7)]"
proof (intro conjI)
  show "(\<exists>reading. validate_PredictionInput t h d p = Inr reading) \<longleftrightarrow>
      (18 \<le> t \<and> t \<le> 35 \<and> 50 \<le> h \<and> h \<le> 80 \<and> 400 \<le> d \<and> d \<le> 800 \<and> 6 \<le> p \<and> p \<le> 7)"
  proof (cases "18 \<le> t \<and> t \<le> 35 \<and> 50 \<le> h \<and> h \<le> 80 \<and> 400 \<le> d \<and> d \<le> 800 \<and> 6 \<le> p \<and> p \<le> 7")
    case True
    then show ?thesis by (simp add: validate_in_bounds)
  next
    case False
    then show ?thesis by (simp add: validate_out_of_bounds [OF False])
  qed
  show "\<forall>errors. validate_PredictionInput t h d p = Inl errors \<longrightarrow>
          (''temperature'' \<in> fst ` set errors \<longleftrightarrow> \<not> (18 \<le> t \<and> t \<le> 35))
        \<and> (''humidity'' \<in> fst ` set errors \<longleftrightarrow> \<not> (50 \<le> h \<and> h \<le> 80))
        \<and> (''tds'' \<in> fst ` set errors \<longleftrightarrow> \<not> (400 \<le> d \<and> d \<le> 800))
        \<and> (''ph'' \<in> fst ` set errors \<longleftrightarrow> \<not> (6 \<le> p \<and> p \<le> 7))
        \<and> fst ` set errors \<subseteq> {''temperature'', ''humidity'', ''tds'', ''ph''}"
  proof (cases "18 \<le> t \<and> t \<le> 35 \<and> 50 \<le> h \<and> h \<le> 80 \<and> 400 \<le> d \<and> d \<le> 800 \<and> 6 \<le> p \<and> p \<le> 7")
    case True
    then show ?thesis by (simp add: validate_in_bounds)
  next
    case False
    show ?thesis
      unfolding validate_out_of_bounds [OF False]
      by (auto simp: not_le split: if_splits)
  qed
  show "validate_PredictionInput 15.0 70 600 6.4 = Inl [(''temperature'', Not_ge 18)]"
    by (simp add: validate_defs)
  show "validate_PredictionInput 22.5 70 600 7.5 = Inl [(''ph'', Not_le 7)]"
    by (simp add: validate_defs)
qed

theorem validation_bounds_witness:
  "validate_PredictionInput 15.0 70 600 7.5 =
      Inl [(''temperature'', Not_ge 18), (''ph'', Not_le 7)]
    \<and> ''temperature'' \<in> fst ` set [(''temperature'', Not_ge 18), (''ph'', Not_le (7::real))]
    \<and> ''ph'' \<in> fst ` set [(''temperature'', Not_ge 18), (''ph'', Not_le (7::real))]
    \<and> ''humidity'' \<notin> fst ` set [(''temperature'', Not_ge 18), (''ph'', Not_le (7::real))]"
proof -
  have v: "validate_PredictionInput 15.0 70 600 7.5 =
      Inl [(''temperature'', Not_ge 18), (''ph'', Not_le 7)]"
    by (simp add: validate_defs)
  show ?thesis
    using validation_bounds [of "15.0" 70 600 "7.5"] v
    by simp
qed

text \<open>
  C4. For every input that passes validation, whatever its decimal precision, each field
  of the validated reading is the input rounded to 2 decimal places: a multiple of 0.01
  at most 0.005 away from the input, the even multiple when the input lies halfway. The
  request is answered by the handler run on that rounded reading. Whenever the scaler
  and the regressor of the bundle answer on the row of the four rounded values, the
  request succeeds, the echoed input conditions are exactly the four rounded values and
  the prediction is the one computed from that row; and every successful result arises
  in this way.
\<close>

theorem rounded_reading_carried:
  assumes "validate_PredictionInput t h d p = Inr reading"
  shows "reading = \<lparr>temperature = py_round t 2, humidity = py_round h 2,
                    tds = py_round d 2, ph = py_round p 2\<rparr>
    \<and> py_round t 2 * 100 \<in> \<int> \<and> \<bar>py_round t 2 - t\<bar> \<le> 1 / 200
    \<and> py_round h 2 * 100 \<in> \<int> \<and> \<bar>py_round h 2 - h\<bar> \<le> 1 / 200
    \<and> py_round d 2 * 100 \<in> \<int> \<and> \<bar>py_round d 2 - d\<bar> \<le> 1 / 200
    \<and> py_round p 2 * 100 \<in> \<int> \<and> \<bar>py_round p 2 - p\<bar> \<le> 1 / 200
    \<and> (\<bar>py_round t 2 - t\<bar> = 1 / 200 \<longrightarrow> even \<lfloor>py_round t 2 * 100\<rfloor>)
    \<and> (\<bar>py_round h 2 - h\<bar> = 1 / 200 \<longrightarrow> even \<lfloor>py_round h 2 * 100\<rfloor>)
    \<and> (\<bar>py_round d 2 - d\<bar> = 1 / 200 \<longrightarrow> even \<lfloor>py_round d 2 * 100\<rfloor>)
    \<and> (\<bar>py_round p 2 - p\<bar> = 1 / 200 \<longrightarrow> even \<lfloor>py_round p 2 * 100\<rfloor>)
    \<and> post_predict w t h d p = predict w reading
    \<and> (best_model_pkl w = Some model \<and> scaler_pkl w = Some scaler
        \<and> model_info_json w = Some info \<and> length (features info) = 4
        \<and> scaler (features info, [py_round t 2, py_round h 2, py_round d 2, py_round p 2])
            = Inr input_scaled
        \<and> model input_scaled = Inr (prediction # rest)
       \<longrightarrow> post_predict w t h d p =
            (Response \<lparr>input_conditions =
                         [(''temperature'', py_round t 2), (''humidity'', py_round h 2),
                          (''tds'', py_round d 2), (''ph'', py_round p 2)],
                       predicted_growth_days = py_round prediction 2,
                       model_used = model_name info,
                       model_accuracy_r2 = py_round (test_r2 info) 4,
                       interpretation' = main_get_interpretation prediction\<rparr>, w))
    \<and> (\<forall>out w'. post_predict w t h d p = (Response out, w') \<longrightarrow>
          input_conditions out =
            [(''temperature'', py_round t 2), (''humidity'', py_round h 2),
             (''tds'', py_round d 2), (''ph'', py_round p 2)]
        \<and> (\<exists>model scaler info input_scaled prediction rest.
              best_model_pkl w = Some model \<and> scaler_pkl w = Some scaler
            \<and> model_info_json w = Some info
            \<and> scaler (features info, [py_round t 2, py_round h 2, py_round d 2, py_round p 2])
                = Inr input_scaled
            \<and> model input_scaled = Inr (prediction # rest)
            \<and> predicted_growth_days out = py_round prediction 2))"
proof -
  have reading: "reading = \<lparr>temperature = py_round t 2, humidity = py_round h 2,
                    tds = py_round d 2, ph = py_round p 2\<rparr>"
    using assms by (rule validate_Inr_rounded)
  have post: "post_predict w t h d p = predict w reading"
    using assms by (simp add: post_predict_def)
  have fed: "post_predict w t h d p =
            (Response \<lparr>input_conditions =
                         [(''temperature'', py_round t 2), (''humidity'', py_round h 2),
                          (''tds'', py_round d 2), (''ph'', py_round p 2)],
                       predicted_growth_days = py_round prediction 2,
                       model_used = model_name info,
                       model_accuracy_r2 = py_round (test_r2 info) 4,
                       interpretation' = main_get_interpretation prediction\<rparr>, w)"
    if run: "best_model_pkl w = Some model \<and> scaler_pkl w = Some scaler
        \<and> model_info_json w = Some info \<and> length (features info) = 4
        \<and> scaler (features info, [py_round t 2, py_round h 2, py_round d 2, py_round p 2])
            = Inr input_scaled
        \<and> model input_scaled = Inr (prediction # rest)"
  proof -
    from run have files: "best_model_pkl w = Some model" "scaler_pkl w = Some scaler"
      "model_info_json w = Some info" "length (features info) = 4"
      by simp_all
    have "predict_growth_days w (py_round t 2) (py_round h 2) (py_round d 2) (py_round p 2) =
        (Inr (Some (prediction,
           \<lparr>input_conditions =
              [(''temperature'', py_round t 2), (''humidity'', py_round h 2),
               (''tds'', py_round d 2), (''ph'', py_round p 2)],
            predicted_growth_days = py_round prediction 2,
            model_used = model_name info,
            model_accuracy_r2 = py_round (test_r2 info) 4\<rparr>)), w)"
      unfolding predict_growth_days_present [OF files] using run by simp
    then show ?thesis
      unfolding post reading by (simp add: predict_def)
  qed
  have echo: "input_conditions out =
            [(''temperature'', py_round t 2), (''humidity'', py_round h 2),
             (''tds'', py_round d 2), (''ph'', py_round p 2)]
        \<and> (\<exists>model scaler info input_scaled prediction rest.
              best_model_pkl w = Some model \<and> scaler_pkl w = Some scaler
            \<and> model_info_json w = Some info
            \<and> scaler (features info, [py_round t 2, py_round h 2, py_round d 2, py_round p 2])
                = Inr input_scaled
            \<and> model input_scaled = Inr (prediction # rest)
            \<and> predicted_growth_days out = py_round prediction 2)"
    if resp: "post_predict w t h d p = (Response out, w')" for out w'
  proof -
    from resp post have "predict w reading = (Response out, w')"
      by simp
    from predict_Response [OF this] obtain prediction res where
      pgd: "predict_growth_days w (temperature reading) (humidity reading) (tds reading)
          (ph reading) = (Inr (Some (prediction, res)), w')"
      and out: "out = \<lparr>input_conditions = input_conditions res,
              predicted_growth_days = py_round prediction 2,
              model_used = model_used res,
              model_accuracy_r2 = model_accuracy_r2 res,
              interpretation' = main_get_interpretation prediction\<rparr>"
      by blast
    from predict_growth_days_success [OF pgd] reading out show ?thesis
      by auto
  qed
  show ?thesis
    using reading post fed echo py_round_grid py_round_close py_round_tie by blast
qed

text \<open>
  An input with three, three and four decimals, the humidity halfway between two
  multiples of 0.01; the regressor returns ten times the temperature it is given, and
  the result carries 224.6, ten times the rounded temperature.
\<close>

theorem rounded_reading_carried_witness:
  "validate_PredictionInput 22.456 70.125 600.1251 6.4 =
      Inr \<lparr>temperature = 22.46, humidity = 70.12, tds = 600.13, ph = 6.4\<rparr>
    \<and> post_predict tenfold_world 22.456 70.125 600.1251 6.4 =
      (Response \<lparr>input_conditions =
                   [(''temperature'', 22.46), (''humidity'', 70.12),
                    (''tds'', 600.13), (''ph'', 6.4)],
                 predicted_growth_days = 224.6,
                 model_used = ''Random Forest'',
                 model_accuracy_r2 = 0.624,
                 interpretation' = ''Slow growth - Suboptimal conditions''\<rparr>, tenfold_world)"
proof -
  have v: "validate_PredictionInput 22.456 70.125 600.1251 6.4 =
      Inr \<lparr>temperature = 22.46, humidity = 70.12, tds = 600.13, ph = 6.4\<rparr>"
    by (simp add: validate_defs py_round_def round_half_even_def)
  have run: "best_model_pkl tenfold_world = Some (slope_regressor 10)
        \<and> scaler_pkl tenfold_world = Some plain_scaler
        \<and> model_info_json tenfold_world = Some example_info
        \<and> length (features example_info) = 4
        \<and> plain_scaler (features example_info,
              [py_round 22.456 2, py_round 70.125 2, py_round 600.1251 2, py_round 6.4 2])
            = Inr [22.46, 70.12, 600.13, 6.4]
        \<and> slope_regressor 10 [22.46, 70.12, 600.13, 6.4] = Inr (224.6 # [])"
    by (simp add: tenfold_world_def example_world_def example_info_def plain_scaler_def
        slope_regressor_def py_round_def round_half_even_def)
  from rounded_reading_carried [OF v, of tenfold_world "slope_regressor 10" plain_scaler
      example_info "[22.46, 70.12, 600.13, 6.4]" "224.6" "[]"] run
  have "post_predict tenfold_world 22.456 70.125 600.1251 6.4 =
      (Response \<lparr>input_conditions =
                   [(''temperature'', py_round 22.456 2), (''humidity'', py_round 70.125 2),
                    (''tds'', py_round 600.1251 2), (''ph'', py_round 6.4 2)],
                 predicted_growth_days = py_round 224.6 2,
                 model_used = model_name example_info,
                 model_accuracy_r2 = py_round (test_r2 example_info) 4,
                 interpretation' = main_get_interpretation 224.6\<rparr>, tenfold_world)"
    by blast
  then show ?thesis
    using v
    by (simp add: example_info_def main_get_interpretation_def py_round_def round_half_even_def)
qed

subsection \<open>Response\<close>

text \<open>
  C5, as stated, fails. The claim says that the accuracy of a successful result equals
  the bundle's \<open>test_r2\<close> and that the interpretation is the category of the returned
  \<open>predicted_growth_days\<close>. With \<open>test_r2 = 0.62417\<close> the result carries 0.6242; with
  a prediction of 14.99625 the result carries 15 as predicted days and the category of
  the band below 15.
\<close>

theorem response_fields_counterexample:
  "model_info_json precise_world = Some precise_info
    \<and> fst (post_predict precise_world 22.5 70 600 6.4) = Response precise_response
    \<and> model_accuracy_r2 precise_response \<noteq> test_r2 precise_info
    \<and> interpretation' precise_response
        \<noteq> main_get_interpretation (predicted_growth_days precise_response)"
  by (simp add: precise_world_def precise_info_def precise_response_def
      example_defs pipeline_defs validate_defs handler_defs)

text \<open>
  C5, amended. For every successful prediction request, the result's \<open>model_used\<close>
  equals the bundle's \<open>model_name\<close>; \<open>model_accuracy_r2\<close> equals the bundle's
  \<open>test_r2\<close> rounded to 4 decimals, which is \<open>test_r2\<close> itself whenever that has at most
  4 decimals (as 0.624 has); and the interpretation is the category of the band that
  contains the prediction of the pipeline before rounding, the returned
  \<open>predicted_growth_days\<close> being that prediction rounded to 2 decimals.
\<close>

theorem successful_response_fields:
  assumes "post_predict w t h d p = (Response out, w')"
  shows "\<exists>model scaler info prediction res.
      best_model_pkl w = Some model \<and> scaler_pkl w = Some scaler
    \<and> model_info_json w = Some info
    \<and> predict_growth_days w (py_round t 2) (py_round h 2) (py_round d 2) (py_round p 2)
        = (Inr (Some (prediction, res)), w')
    \<and> model_used out = model_name info
    \<and> model_accuracy_r2 out = py_round (test_r2 info) 4
    \<and> (\<forall>k. test_r2 info = of_int k / 10 ^ 4 \<longrightarrow> model_accuracy_r2 out = test_r2 info)
    \<and> predicted_growth_days out = py_round prediction 2
    \<and> interpretation' out = main_get_interpretation prediction"
proof -
  obtain reading where v: "validate_PredictionInput t h d p = Inr reading"
    using assms by (cases "validate_PredictionInput t h d p") (auto simp add: post_predict_def)
  then have resp: "predict w reading = (Response out, w')"
    using assms by (simp add: post_predict_def)
  have reading: "reading = \<lparr>temperature = py_round t 2, humidity = py_round h 2,
                    tds = py_round d 2, ph = py_round p 2\<rparr>"
    using v by (rule validate_Inr_rounded)
  from predict_Response [OF resp] obtain prediction res where
    pgd: "predict_growth_days w (temperature reading) (humidity reading) (tds reading)
        (ph reading) = (Inr (Some (prediction, res)), w')"
    and out: "out = \<lparr>input_conditions = input_conditions res,
            predicted_growth_days = py_round prediction 2,
            model_used = model_used res,
            model_accuracy_r2 = model_accuracy_r2 res,
            interpretation' = main_get_interpretation prediction\<rparr>"
    by blast
  from predict_growth_days_success [OF pgd] obtain model scaler info where
    files: "best_model_pkl w = Some model" "scaler_pkl w = Some scaler"
      "model_info_json w = Some info"
    and res: "res = \<lparr>input_conditions =
                [(''temperature'', temperature reading), (''humidity'', humidity reading),
                 (''tds'', tds reading), (''ph'', ph reading)],
              predicted_growth_days = py_round prediction 2,
              model_used = model_name info,
              model_accuracy_r2 = py_round (test_r2 info) 4\<rparr>"
    by blast
  have exact: "\<forall>k. test_r2 info = of_int k / 10 ^ 4 \<longrightarrow> model_accuracy_r2 out = test_r2 info"
  proof (intro allI impI)
    fix k :: int
    assume "test_r2 info = of_int k / 10 ^ 4"
    then have "py_round (test_r2 info) 4 = test_r2 info"
      using py_round_exact [of k 4] by (simp only:)
    then show "model_accuracy_r2 out = test_r2 info"
      using out res by simp
  qed
  show ?thesis
    using files pgd out res reading exact by auto
qed

theorem successful_response_fields_witness:
  "post_predict example_world 22.5 70 600 6.4 =
     (Response \<lparr>input_conditions =
                  [(''temperature'', 22.5), (''humidity'', 70), (''tds'', 600), (''ph'', 6.4)],
                predicted_growth_days = 22.5, model_used = ''Random Forest'',
                model_accuracy_r2 = 0.624,
                interpretation' = ''Fast growth - Good conditions''\<rparr>, example_world)
    \<and> model_name example_info = ''Random Forest''
    \<and> py_round (test_r2 example_info) 4 = 0.624"
proof -
  have run: "post_predict example_world 22.5 70 600 6.4 =
     (Response \<lparr>input_conditions =
                  [(''temperature'', 22.5), (''humidity'', 70), (''tds'', 600), (''ph'', 6.4)],
                predicted_growth_days = 22.5, model_used = ''Random Forest'',
                model_accuracy_r2 = 0.624,
                interpretation' = ''Fast growth - Good conditions''\<rparr>, example_world)"
    by (simp add: example_defs pipeline_defs validate_defs handler_defs)
  have info: "model_info_json example_world = Some example_info"
    by (simp add: example_world_def)
  show ?thesis
    using successful_response_fields [OF run] run info by auto
qed

subsection \<open>Failures\<close>

text \<open>
  C7, as stated, fails. The claim says that the load failure names exactly the missing
  resources. With the scaler and the metadata both absent, the load fails and its only
  report is the line naming \<^verbatim>\<open>scaler.pkl\<close>; \<^verbatim>\<open>model_info.json\<close> occurs nowhere in the
  output.
\<close>

theorem load_names_first_missing_counterexample:
  "scaler_pkl two_missing_world = None
    \<and> model_info_json two_missing_world = None
    \<and> fst (load_model two_missing_world) = None
    \<and> stdout (snd (load_model two_missing_world))
        = [''Error: Required file not found - '' @ str_exn (no_such_file ''scaler.pkl'')]
    \<and> \<not> sublist ''model_info.json'' (concat (stdout (snd (load_model two_missing_world))))"
proof -
  have out: "stdout (snd (load_model two_missing_world))
      = [''Error: Required file not found - '' @ str_exn (no_such_file ''scaler.pkl'')]"
    by (simp add: two_missing_world_def example_world_def load_model_def print_def)
  have "\<not> sublist ''model_info.json''
      (concat [''Error: Required file not found - '' @ str_exn (no_such_file ''scaler.pkl'')])"
    by code_simp
  then show ?thesis
    using out by (simp add: two_missing_world_def example_world_def load_model_def)
qed

text \<open>
  C7, amended. If any of the three artifact resources (regressor, scaler, metadata) is
  absent, the load fails and prints one line that names the first absent resource in
  load order (regressor, then scaler, then metadata), and no inference is attempted
  after that failure: the prediction function returns its no-result value, and the world
  it leaves is the one the failed load left, with nothing further printed.
\<close>

theorem load_first_missing:
  assumes "best_model_pkl w = None \<or> scaler_pkl w = None \<or> model_info_json w = None"
  shows "fst (load_model w) = None
    \<and> snd (load_model w) =
        print (''Error: Required file not found - '' @ str_exn (no_such_file
          (if best_model_pkl w = None then ''best_model.pkl''
           else if scaler_pkl w = None then ''scaler.pkl'' else ''model_info.json''))) w
    \<and> predict_growth_days w t h d p = (Inr None, snd (load_model w))"
  using load_model_absent [OF assms]
  by (simp add: predict_growth_days_def)

theorem load_first_missing_witness:
  "scaler_pkl two_missing_world = None
    \<and> fst (load_model two_missing_world) = None
    \<and> snd (load_model two_missing_world) =
        print (''Error: Required file not found - '' @ str_exn (no_such_file ''scaler.pkl''))
          two_missing_world
    \<and> predict_growth_days two_missing_world 22.5 70 600 6.4
        = (Inr None, snd (load_model two_missing_world))"
  using load_first_missing [of two_missing_world "22.5" 70 600 "6.4"]
  by (simp add: two_missing_world_def example_world_def)

text \<open>
  C8, as stated, fails. The claim says that a feature list with a name that maps to no
  reading field makes the prediction fail. With four names that are no reading fields,
  the prediction succeeds.
\<close>

theorem unknown_feature_names_counterexample:
  "model_info_json unknown_names_world =
      Some (example_info\<lparr>features := [''light'', ''wind'', ''noise'', ''salinity'']\<rparr>)
    \<and> fst (predict_growth_days unknown_names_world 22.5 70 600 6.4) =
      Inr (Some (22.5,
        \<lparr>input_conditions =
           [(''temperature'', 22.5), (''humidity'', 70), (''tds'', 600), (''ph'', 6.4)],
         predicted_growth_days = 22.5, model_used = ''Random Forest'',
         model_accuracy_r2 = 0.624\<rparr>))"
  by (simp add: unknown_names_world_def example_defs pipeline_defs)

text \<open>
  C8, amended. For every reading and every bundle whose feature list has a length
  different from 4, the prediction fails, before the scaler or the regressor is used,
  with the ValueError that the frame constructor raises for a wrong number of labels.
  The names in the list are not compared with the reading fields: any four labels make
  a frame.
\<close>

theorem features_length_mismatch:
  assumes "best_model_pkl w = Some model" "scaler_pkl w = Some scaler"
    "model_info_json w = Some info" "length (features info) \<noteq> 4"
  shows "predict_growth_days w t h d p =
      (Inl (ValueError (str_nat (length (features info))
              @ '' columns passed, passed data had 4 columns'')), w)
    \<and> (length columns = 4 \<longrightarrow> DataFrame [t, h, d, p] columns = Inr (columns, [t, h, d, p]))"
  using assms
  by (simp add: predict_growth_days_def load_model_present DataFrame_not_four DataFrame_four
      del: str_nat.simps)

theorem features_length_mismatch_witness:
  "length (features (example_info\<lparr>features := [''temperature'', ''humidity'']\<rparr>)) \<noteq> 4
    \<and> predict_growth_days short_features_world 22.5 70 600 6.4 =
      (Inl (ValueError ''2 columns passed, passed data had 4 columns''), short_features_world)"
proof -
  have two: "str_nat (length [''temperature'', ''humidity'']) = ''2''"
    by code_simp
  show ?thesis
    using features_length_mismatch [of short_features_world "slope_regressor 1" plain_scaler
        "example_info\<lparr>features := [''temperature'', ''humidity'']\<rparr>" "22.5" 70 600 "6.4"] two
    by (simp add: short_features_world_def example_world_def del: str_nat.simps)
qed

subsection \<open>Response assembly\<close>

text \<open>
  C9. Whenever the pipeline returned a prediction, the handler answers with a result,
  never with a failure of its own. The result holds the echoed reading, the category of
  the prediction, the model name of the bundle's metadata, the predicted days rounded to
  2 decimals and the accuracy of the metadata rounded to 4 decimals. Rounded to n
  decimals means: an integer number of units of \<open>10 ^ - n\<close>, at most half a unit away
  from the value, and an even number of units when the value lies halfway.
\<close>

theorem response_assembly:
  assumes "predict_growth_days w (temperature input_data) (humidity input_data)
      (tds input_data) (ph input_data) = (Inr (Some (prediction, res)), w')"
  shows "\<exists>info days r2.
      model_info_json w = Some info
    \<and> predict w input_data =
      (Response \<lparr>input_conditions =
                   [(''temperature'', temperature input_data), (''humidity'', humidity input_data),
                    (''tds'', tds input_data), (''ph'', ph input_data)],
                 predicted_growth_days = of_int days / 10 ^ 2,
                 model_used = model_name info,
                 model_accuracy_r2 = of_int r2 / 10 ^ 4,
                 interpretation' = main_get_interpretation prediction\<rparr>, w')
    \<and> \<bar>of_int days - prediction * 10 ^ 2\<bar> \<le> 1 / 2
    \<and> (\<bar>of_int days - prediction * 10 ^ 2\<bar> = 1 / 2 \<longrightarrow> even days)
    \<and> \<bar>of_int r2 - test_r2 info * 10 ^ 4\<bar> \<le> 1 / 2
    \<and> (\<bar>of_int r2 - test_r2 info * 10 ^ 4\<bar> = 1 / 2 \<longrightarrow> even r2)
    \<and> of_int days / 10 ^ 2 = py_round prediction 2
    \<and> of_int r2 / 10 ^ 4 = py_round (test_r2 info) 4"
proof -
  from predict_growth_days_success [OF assms] obtain info where
    info: "model_info_json w = Some info"
    and res: "res = \<lparr>input_conditions =
                [(''temperature'', temperature input_data), (''humidity'', humidity input_data),
                 (''tds'', tds input_data), (''ph'', ph input_data)],
              predicted_growth_days = py_round prediction 2,
              model_used = model_name info,
              model_accuracy_r2 = py_round (test_r2 info) 4\<rparr>"
    by blast
  from py_round_nearest [of prediction 2] obtain days :: int where
    days: "py_round prediction 2 = of_int days / 10 ^ 2"
      "\<bar>of_int days - prediction * 10 ^ 2\<bar> \<le> 1 / 2"
      "\<bar>of_int days - prediction * 10 ^ 2\<bar> = 1 / 2 \<longrightarrow> even days"
    by blast
  from py_round_nearest [of "test_r2 info" 4] obtain r2 :: int where
    r2: "py_round (test_r2 info) 4 = of_int r2 / 10 ^ 4"
      "\<bar>of_int r2 - test_r2 info * 10 ^ 4\<bar> \<le> 1 / 2"
      "\<bar>of_int r2 - test_r2 info * 10 ^ 4\<bar> = 1 / 2 \<longrightarrow> even r2"
    by blast
  have "predict w input_data =
      (Response \<lparr>input_conditions =
                   [(''temperature'', temperature input_data), (''humidity'', humidity input_data),
                    (''tds'', tds input_data), (''ph'', ph input_data)],
                 predicted_growth_days = of_int days / 10 ^ 2,
                 model_used = model_name info,
                 model_accuracy_r2 = of_int r2 / 10 ^ 4,
                 interpretation' = main_get_interpretation prediction\<rparr>, w')"
    using assms res days(1) r2(1) by (simp add: predict_def)
  with info days r2 show ?thesis
    by metis
qed

text \<open>
  A prediction of 14.99625 and an accuracy of 0.62417: the result carries 15 and 0.6242.
\<close>

theorem response_assembly_witness:
  "predict_growth_days precise_world 22.5 70 600 6.4 =
      (Inr (Some (14.99625,
        \<lparr>input_conditions =
           [(''temperature'', 22.5), (''humidity'', 70), (''tds'', 600), (''ph'', 6.4)],
         predicted_growth_days = 15, model_used = ''Random Forest'',
         model_accuracy_r2 = 0.6242\<rparr>)), precise_world)
    \<and> predict precise_world \<lparr>temperature = 22.5, humidity = 70, tds = 600, ph = 6.4\<rparr> =
      (Response \<lparr>input_conditions =
                   [(''temperature'', 22.5), (''humidity'', 70), (''tds'', 600), (''ph'', 6.4)],
                 predicted_growth_days = 15,
                 model_used = ''Random Forest'',
                 model_accuracy_r2 = 0.6242,
                 interpretation' = ''Very fast growth - Excellent conditions''\<rparr>, precise_world)"
proof -
  have run: "predict_growth_days precise_world
      (temperature \<lparr>temperature = 22.5, humidity = 70, tds = 600, ph = 6.4\<rparr>)
      (humidity \<lparr>temperature = 22.5, humidity = 70, tds = 600, ph = 6.4\<rparr>)
      (tds \<lparr>temperature = 22.5, humidity = 70, tds = 600, ph = 6.4\<rparr>)
      (ph \<lparr>temperature = 22.5, humidity = 70, tds = 600, ph = 6.4\<rparr>) =
      (Inr (Some (14.99625,
        \<lparr>input_conditions =
           [(''temperature'', 22.5), (''humidity'', 70), (''tds'', 600), (''ph'', 6.4)],
         predicted_growth_days = 15, model_used = ''Random Forest'',
         model_accuracy_r2 = 0.6242\<rparr>)), precise_world)"
    by (simp add: precise_world_def precise_info_def example_defs pipeline_defs)
  from response_assembly [OF run] obtain info days r2 where
    info: "model_info_json precise_world = Some info"
    and resp: "predict precise_world \<lparr>temperature = 22.5, humidity = 70, tds = 600, ph = 6.4\<rparr> =
      (Response \<lparr>input_conditions =
                   [(''temperature'', 22.5), (''humidity'', 70), (''tds'', 600), (''ph'', 6.4)],
                 predicted_growth_days = of_int days / 10 ^ 2,
                 model_used = model_name info,
                 model_accuracy_r2 = of_int r2 / 10 ^ 4,
                 interpretation' = main_get_interpretation 14.99625\<rparr>, precise_world)"
    and days: "\<bar>of_int days - 14.99625 * 10 ^ 2\<bar> \<le> (1 / 2 :: real)"
    and r2: "\<bar>of_int r2 - test_r2 info * 10 ^ 4\<bar> \<le> 1 / 2"
    by auto
  have info_eq: "info = precise_info"
    using info by (simp add: precise_world_def)
  have "\<bar>of_int days - 11997 / 8\<bar> \<le> (1 / 2 :: real)"
    using days by simp
  then have "(1499 :: real) < of_int days" "of_int days < (1501 :: real)"
    by linarith+
  then have "1499 < days" "days < 1501"
    by simp_all
  then have days_eq: "days = 1500"
    by simp
  have "\<bar>of_int r2 - 62417 / 10\<bar> \<le> (1 / 2 :: real)"
    using r2 by (simp add: info_eq precise_info_def example_info_def)
  then have "(6241 :: real) < of_int r2" "of_int r2 < (6243 :: real)"
    by linarith+
  then have "6241 < r2" "r2 < 6243"
    by simp_all
  then have r2_eq: "r2 = 6242"
    by simp
  show ?thesis
    using run resp
    by (simp add: days_eq r2_eq info_eq precise_info_def example_info_def
        main_get_interpretation_def)
qed

subsection \<open>The two interpreters\<close>

text \<open>
  C10. The interpretation function of the prediction module and the one of the
  request-handling layer return the same category on every real input.
\<close>

theorem interpretation_copies_equal:
  "main_get_interpretation days = get_interpretation days"
  by (simp add: main_get_interpretation_def get_interpretation_def)

end
